theory Spec2Isabelle
  imports Main
begin

section \<open>The wallet hook \<^verbatim>\<open>useWallet\<close> (src/hooks/useWallet.ts)\<close>

text \<open>
  The hook keeps one \<^verbatim>\<open>WalletState\<close> record in React state and changes it only through
  \<^verbatim>\<open>setWalletState\<close>.  Everything else it touches is made explicit here: the two browser
  storages, whether the page has an injected provider (\<^verbatim>\<open>window.ethereum\<close>), and a log of
  the calls the hook issues to the provider and to the Web3 client.

  Strings are byte lists holding the UTF-8 form of the JavaScript string.  A \<^verbatim>\<open>bigint\<close> is an
  \<open>int\<close>.
\<close>

subsection \<open>Data model (src/types/wallet.ts)\<close>

record WalletState =
  address :: "string option"
  isConnected :: bool
  isConnecting :: bool
  error :: "string option"
  chainId :: "string option"
  balance :: "string option"

text \<open>The argument of \<^verbatim>\<open>useState\<close>, written a second time in \<^verbatim>\<open>disconnect\<close>.\<close>

definition initialState :: WalletState where
  "initialState =
     \<lparr>address = None, isConnected = False, isConnecting = False,
      error = None, chainId = None, balance = None\<rparr>"

text \<open>
  What a \<^verbatim>\<open>catch\<close> clause receives: an object for which \<^verbatim>\<open>instanceof Error\<close> holds, with its
  \<^verbatim>\<open>message\<close>, or any other value.
\<close>

datatype thrown = Error string | NonError

datatype 'a settled = Fulfilled 'a | Rejected thrown

text \<open>
  The answers the outside gives while one asynchronous function runs: the provider's answer
  to the accounts query (\<^verbatim>\<open>eth_requestAccounts\<close> in \<^verbatim>\<open>connect\<close>, \<^verbatim>\<open>eth_accounts\<close> elsewhere;
  \<open>None\<close> is \<^verbatim>\<open>null\<close> or \<^verbatim>\<open>undefined\<close>), and the Web3 client's answers to
  \<^verbatim>\<open>web3.eth.getChainId()\<close> and \<^verbatim>\<open>web3.eth.getBalance(address)\<close>.
\<close>

record rpc =
  request :: "string list option settled"
  getChainId :: "int settled"
  getBalance :: "int settled"

datatype call = Request string | GetChainId | GetBalance string

record world =
  walletState :: WalletState
  localStorage :: "string \<rightharpoonup> string"
  sessionStorage :: "string \<rightharpoonup> string"
  ethereum :: bool
  calls :: "call list"

definition setWalletState :: "(WalletState \<Rightarrow> WalletState) \<Rightarrow> world \<Rightarrow> world" where
  "setWalletState f w = w\<lparr>walletState := f (walletState w)\<rparr>"

definition issue :: "call \<Rightarrow> world \<Rightarrow> world" where
  "issue c w = w\<lparr>calls := calls w @ [c]\<rparr>"

text \<open>\<^verbatim>\<open>localStorage.setItem\<close> and \<^verbatim>\<open>localStorage.removeItem\<close>; both are taken to succeed.\<close>

definition setItem :: "string \<Rightarrow> string \<Rightarrow> world \<Rightarrow> world" where
  "setItem key val w = w\<lparr>localStorage := (localStorage w)(key \<mapsto> val)\<rparr>"

definition removeItem :: "string \<Rightarrow> world \<Rightarrow> world" where
  "removeItem key w = w\<lparr>localStorage := (localStorage w)(key := None)\<rparr>"

definition isMetamaskInstalled :: "world \<Rightarrow> bool" where
  "isMetamaskInstalled w = ethereum w"

subsection \<open>JavaScript numbers and their decimal forms\<close>

text \<open>
  A Number is an IEEE 754 double: \<open>Finite neg m e\<close> is \<open>\<plusminus> m * 2 ^ e\<close> with \<open>m < 2 ^ 53\<close>,
  \<open>- 1074 \<le> e \<le> 971\<close>, and \<open>2 ^ 52 \<le> m\<close> unless \<open>e = - 1074\<close>, so that every value has one
  representation.  A non-negative rational is a pair of integers, numerator and positive
  denominator.
\<close>

datatype number = NaN | Infinity bool | Finite bool int int

definition digit_char :: "int \<Rightarrow> char" where
  "digit_char d = ''0123456789'' ! nat d"

function decimal :: "int \<Rightarrow> string" where
  "decimal n =
     (if n < 10 then [digit_char n] else decimal (n div 10) @ [digit_char (n mod 10)])"
  by pat_completeness auto
termination
  by (relation "measure nat") auto

text \<open>\<^verbatim>\<open>String(chainId)\<close> on a \<^verbatim>\<open>bigint\<close>.\<close>

definition String_bigint :: "int \<Rightarrow> string" where
  "String_bigint n = (if n < 0 then ''-'' @ decimal (- n) else decimal n)"

function bit_length :: "int \<Rightarrow> nat" where
  "bit_length n = (if n \<le> 0 then 0 else Suc (bit_length (n div 2)))"
  by pat_completeness auto
termination
  by (relation "measure nat") auto

text \<open>\<open>floor_log2 p q\<close> is the integer part of the binary logarithm of \<open>p / q\<close>.\<close>

definition floor_log2 :: "int \<Rightarrow> int \<Rightarrow> int" where
  "floor_log2 p q =
     (let e0 = int (bit_length p) - int (bit_length q)
      in if (if 0 \<le> e0 then q * 2 ^ nat e0 \<le> p else q \<le> p * 2 ^ nat (- e0))
         then e0 else e0 - 1)"

definition round_half_even :: "int \<Rightarrow> int \<Rightarrow> int" where
  "round_half_even a b =
     (let f = a div b; r = a mod b
      in if 2 * r < b then f else if b < 2 * r then f + 1
         else if even f then f else f + 1)"

text \<open>
  The Number value for \<open>\<plusminus> p / q\<close>: the nearest double, ties to the even significand,
  subnormal below \<open>2 ^ - 1022\<close>, infinite from \<open>2 ^ 1024 - 2 ^ 970\<close> on.
\<close>

definition Number_of :: "bool \<Rightarrow> int \<Rightarrow> int \<Rightarrow> number" where
  "Number_of neg p q =
     (if p = 0 then Finite neg 0 (- 1074)
      else
        let e = max (floor_log2 p q) (- 1022) - 52;
            m = (if 0 \<le> e then round_half_even p (q * 2 ^ nat e)
                 else round_half_even (p * 2 ^ nat (- e)) q);
            m' = (if m = 2 ^ 53 then 2 ^ 52 else m);
            e' = (if m = 2 ^ 53 then e + 1 else e)
        in if 971 < e' then Infinity neg else Finite neg m' e')"

definition frac_of :: "int \<Rightarrow> int \<Rightarrow> int \<times> int" where
  "frac_of m e = (if 0 \<le> e then (m * 2 ^ nat e, 1) else (m, 2 ^ nat (- e)))"

definition scale10 :: "int \<Rightarrow> int \<Rightarrow> int \<Rightarrow> int \<times> int" where
  "scale10 a b j = (if 0 \<le> j then (a * 10 ^ nat j, b) else (a, b * 10 ^ nat (- j)))"

function shift10 :: "int \<Rightarrow> int \<Rightarrow> nat" where
  "shift10 a b = (if a \<le> 0 \<or> b \<le> a then 0 else Suc (shift10 (10 * a) b))"
  by pat_completeness auto
termination
  by (relation "measure (\<lambda>(a, b). nat (b - a))") auto

text \<open>The \<open>n\<close> with \<open>10 ^ (n - 1) \<le> a / b < 10 ^ n\<close>, for \<open>a / b > 0\<close>.\<close>

definition magnitude :: "int \<Rightarrow> int \<Rightarrow> int" where
  "magnitude a b =
     (if b \<le> a then int (length (decimal (a div b))) else 1 - int (shift10 a b))"

definition roundtrips :: "int \<Rightarrow> int \<Rightarrow> int \<Rightarrow> int \<Rightarrow> bool" where
  "roundtrips s j m e =
     (case scale10 s 1 j of (p, q) \<Rightarrow> Number_of False p q = Finite False m e)"

text \<open>
  Number::toString, step 5: integers \<open>s\<close> and \<open>n\<close> with \<open>k\<close> digits in \<open>s\<close>, \<open>k\<close> as small as
  possible, such that \<open>s * 10 ^ (n - k)\<close> has the Number value \<open>m * 2 ^ e\<close>.  Where two
  \<open>s\<close> qualify the one closer to the value is taken, as the engines do.  Seventeen digits
  always qualify; \<open>fuel\<close> bounds the search for the termination argument only.
\<close>

fun shortest :: "nat \<Rightarrow> nat \<Rightarrow> int \<Rightarrow> int \<Rightarrow> int \<Rightarrow> int \<times> int" where
  "shortest fuel k m e n =
     (case frac_of m e of (a, b) \<Rightarrow>
      case scale10 a b (int k - n) of (sa, sb) \<Rightarrow>
        let lo = sa div sb; hi = lo + 1;
            ok_lo = roundtrips lo (n - int k) m e;
            ok_hi = roundtrips hi (n - int k) m e;
            pick_lo = (2 * sa < (2 * lo + 1) * sb \<or>
                       (2 * sa = (2 * lo + 1) * sb \<and> even lo));
            s = (if ok_lo then (if ok_hi then (if pick_lo then lo else hi) else lo) else hi)
        in if ok_lo \<or> ok_hi \<or> fuel = 0
           then (if s = 10 ^ k then (10 ^ (k - 1), n + 1) else (s, n))
           else shortest (fuel - 1) (Suc k) m e n)"

definition finite_toString :: "int \<Rightarrow> int \<Rightarrow> string" where
  "finite_toString m e =
     (case frac_of m e of (a, b) \<Rightarrow>
      case shortest 20 1 m e (magnitude a b) of (s, n) \<Rightarrow>
        let ds = decimal s; k = int (length ds)
        in if - 5 \<le> n \<and> n \<le> 21 then
             (if k \<le> n then ds @ replicate (nat (n - k)) CHR ''0''
              else if 0 < n then take (nat n) ds @ ''.'' @ drop (nat n) ds
              else ''0.'' @ replicate (nat (- n)) CHR ''0'' @ ds)
           else
             (if k = 1 then ds else take 1 ds @ ''.'' @ drop 1 ds)
               @ ''e'' @ (if n < 0 then ''-'' else ''+'') @ decimal \<bar>n - 1\<bar>)"

fun Number_toString :: "number \<Rightarrow> string" where
  "Number_toString NaN = ''NaN''"
| "Number_toString (Infinity neg) = (if neg then ''-Infinity'' else ''Infinity'')"
| "Number_toString (Finite neg m e) =
     (if m = 0 then ''0'' else (if neg then ''-'' else '''') @ finite_toString m e)"

text \<open>
  \<^verbatim>\<open>Number.prototype.toFixed(fd)\<close> for \<open>fd \<le> 100\<close>: below \<open>10 ^ 21\<close> the integer \<open>n\<close> with
  \<open>n / 10 ^ fd\<close> nearest to the value, the larger one of two, printed with \<open>fd\<close> digits after
  the point.
\<close>

fun toFixed :: "nat \<Rightarrow> number \<Rightarrow> string" where
  "toFixed fd NaN = Number_toString NaN"
| "toFixed fd (Infinity neg) = Number_toString (Infinity neg)"
| "toFixed fd (Finite neg m e) =
     (case frac_of m e of (a, b) \<Rightarrow>
        (if neg \<and> m \<noteq> 0 then ''-'' else '''') @
        (if 10 ^ 21 * b \<le> a then Number_toString (Finite False m e)
         else
           let n = (2 * a * 10 ^ fd + b) div (2 * b);
               ds = decimal n;
               zs = replicate (fd + 1 - length ds) CHR ''0'' @ ds
           in if fd = 0 then ds
              else take (length zs - fd) zs @ ''.'' @ drop (length zs - fd) zs))"

text \<open>
  \<^verbatim>\<open>web3.utils.fromWei(balanceWei, "ether")\<close> returns the decimal numeral of
  \<open>wei / 10 ^ 18\<close>; the numeral is kept as the rational it denotes.  \<^verbatim>\<open>Number.parseFloat\<close>
  reads a numeral as its Number value.
\<close>

definition fromWei :: "int \<Rightarrow> int \<times> int" where
  "fromWei wei = (wei, 10 ^ 18)"

definition parseFloat :: "int \<times> int \<Rightarrow> number" where
  "parseFloat mv = Number_of (fst mv < 0) \<bar>fst mv\<bar> (snd mv)"

subsection \<open>\<^verbatim>\<open>connect\<close>\<close>

text \<open>\<^verbatim>\<open>String.prototype.includes\<close>.\<close>

fun includes_string :: "string \<Rightarrow> string \<Rightarrow> bool" where
  "includes_string [] sub = (sub = [])"
| "includes_string (c # cs) sub =
     (take (length sub) (c # cs) = sub \<or> includes_string cs sub)"

text \<open>The inner \<^verbatim>\<open>catch (requestError)\<close>.\<close>

definition catch_requestError :: "thrown \<Rightarrow> world \<Rightarrow> world" where
  "catch_requestError requestError w =
     (let errorMessage =
            (case requestError of Error message \<Rightarrow> message
             | NonError \<Rightarrow> ''User rejected connection'')
      in setWalletState (\<lambda>prev. prev
           \<lparr>isConnecting := False,
            error := Some (if includes_string errorMessage ''User rejected''
                           then ''Connection rejected by user'' else errorMessage)\<rparr>) w)"

text \<open>
  \<^verbatim>\<open>connect\<close> writes the store twice with an \<^verbatim>\<open>await\<close> in between.  \<open>connect_start\<close> is the
  part that runs when \<^verbatim>\<open>connect()\<close> is called, up to the request it awaits.
  \<open>connect_resume\<close> is the rest, from the settling of the request on; its awaits do not
  touch the store, and its single \<^verbatim>\<open>setWalletState\<close> acts on the store as it is then.
  None of the modelled steps throws outside the inner \<^verbatim>\<open>try\<close>, so the outer
  \<^verbatim>\<open>catch (err)\<close> has no case here.
\<close>

definition connect_start :: "world \<Rightarrow> world" where
  "connect_start w =
     (if \<not> ethereum w then
        setWalletState (\<lambda>prev. prev
          \<lparr>error := Some ''MetaMask is not installed. Please install it.''\<rparr>) w
      else
        issue (Request ''eth_requestAccounts'')
          (setWalletState (\<lambda>prev. prev\<lparr>isConnecting := True, error := None\<rparr>) w))"

definition connect_resume :: "rpc \<Rightarrow> world \<Rightarrow> world" where
  "connect_resume env w =
     (case request env of
        Rejected requestError \<Rightarrow> catch_requestError requestError w
      | Fulfilled None \<Rightarrow>
          setWalletState (\<lambda>prev. prev
            \<lparr>isConnecting := False,
             error := Some ''No accounts found or user rejected connection''\<rparr>) w
      | Fulfilled (Some []) \<Rightarrow>
          setWalletState (\<lambda>prev. prev
            \<lparr>isConnecting := False,
             error := Some ''No accounts found or user rejected connection''\<rparr>) w
      | Fulfilled (Some (addr # _)) \<Rightarrow>
          (case getChainId env of
             Rejected requestError \<Rightarrow> catch_requestError requestError (issue GetChainId w)
           | Fulfilled cid \<Rightarrow>
               (case getBalance env of
                  Rejected requestError \<Rightarrow>
                    catch_requestError requestError
                      (issue (GetBalance addr) (issue GetChainId w))
                | Fulfilled balanceWei \<Rightarrow>
                    (let balanceEth = fromWei balanceWei;
                         w1 = issue (GetBalance addr) (issue GetChainId w);
                         w2 = setWalletState (\<lambda>_.
                                \<lparr>address = Some addr, isConnected = True,
                                 isConnecting = False, error = None,
                                 chainId = Some (String_bigint cid),
                                 balance = Some (toFixed 4 (parseFloat balanceEth))\<rparr>) w1
                     in setItem ''isWalletConnected'' ''true'' w2))))"

definition connect :: "rpc \<Rightarrow> world \<Rightarrow> world" where
  "connect env w =
     (if \<not> ethereum w then connect_start w else connect_resume env (connect_start w))"

subsection \<open>\<^verbatim>\<open>disconnect\<close>\<close>

text \<open>
  The permission request is sent and its outcome ignored (\<^verbatim>\<open>.catch(() => {})\<close>).
\<close>

definition disconnect :: "world \<Rightarrow> world" where
  "disconnect w =
     (let w1 = setWalletState (\<lambda>_.
                 \<lparr>address = None, isConnected = False, isConnecting = False,
                  error = None, chainId = None, balance = None\<rparr>) w;
          w2 = removeItem ''isWalletConnected'' w1;
          w3 = w2\<lparr>sessionStorage := Map.empty\<rparr>
      in if ethereum w3 then issue (Request ''wallet_revokePermissions'') w3 else w3)"

subsection \<open>Auto-reconnect at mount\<close>

text \<open>
  The first effect.  \<^verbatim>\<open>getWeb3()\<close> is \<^verbatim>\<open>null\<close> without a provider.  A \<^verbatim>\<open>null\<close> answer makes
  \<^verbatim>\<open>accounts.length\<close> throw inside the \<^verbatim>\<open>try\<close>; an empty array takes neither the
  \<^verbatim>\<open>if\<close> nor the \<^verbatim>\<open>catch\<close>.
\<close>

definition autoReconnect :: "rpc \<Rightarrow> world \<Rightarrow> world" where
  "autoReconnect env w =
     (let shouldReconnect = localStorage w ''isWalletConnected''
      in if shouldReconnect = Some ''true'' then
           (if \<not> ethereum w then w
            else
              let w1 = issue (Request ''eth_accounts'') w
              in case request env of
                   Rejected _ \<Rightarrow> removeItem ''isWalletConnected'' w1
                 | Fulfilled None \<Rightarrow> removeItem ''isWalletConnected'' w1
                 | Fulfilled (Some []) \<Rightarrow> w1
                 | Fulfilled (Some (addr # _)) \<Rightarrow>
                     (case getChainId env of
                        Rejected _ \<Rightarrow> removeItem ''isWalletConnected'' (issue GetChainId w1)
                      | Fulfilled cid \<Rightarrow>
                          (case getBalance env of
                             Rejected _ \<Rightarrow>
                               removeItem ''isWalletConnected''
                                 (issue (GetBalance addr) (issue GetChainId w1))
                           | Fulfilled balanceWei \<Rightarrow>
                               (let balanceEth = fromWei balanceWei
                                in setWalletState (\<lambda>_.
                                     \<lparr>address = Some addr, isConnected = True,
                                      isConnecting = False, error = None,
                                      chainId = Some (String_bigint cid),
                                      balance = Some (toFixed 4 (parseFloat balanceEth))\<rparr>)
                                     (issue (GetBalance addr) (issue GetChainId w1))))))
         else w)"

subsection \<open>Page teardown\<close>

text \<open>\<open>navType\<close> is \<^verbatim>\<open>navEntries[0]?.type\<close>, \<open>None\<close> when there is no navigation entry.\<close>

definition handleBeforeUnload :: "string option \<Rightarrow> world \<Rightarrow> world" where
  "handleBeforeUnload navType w =
     (if navType = Some ''reload'' then w else removeItem ''isWalletConnected'' w)"

subsection \<open>Provider events\<close>

text \<open>
  The third effect registers the handlers only when the page has a provider.  The handlers
  are asynchronous; each writes the store once, at its end.
\<close>

definition handleAccountsChanged :: "string list \<Rightarrow> rpc \<Rightarrow> world \<Rightarrow> world" where
  "handleAccountsChanged accounts env w =
     (case accounts of
        [] \<Rightarrow> disconnect w
      | addr # _ \<Rightarrow>
          (let failed = setWalletState (\<lambda>prev. prev
                 \<lparr>error := Some ''Failed to update account information''\<rparr>)
           in case getChainId env of
                Rejected _ \<Rightarrow> failed (issue GetChainId w)
              | Fulfilled cid \<Rightarrow>
                  (case getBalance env of
                     Rejected _ \<Rightarrow> failed (issue (GetBalance addr) (issue GetChainId w))
                   | Fulfilled balanceWei \<Rightarrow>
                       (let balanceEth = fromWei balanceWei
                        in setWalletState (\<lambda>prev. prev
                             \<lparr>address := Some addr, isConnected := True,
                              chainId := Some (String_bigint cid),
                              balance := Some (toFixed 4 (parseFloat balanceEth)),
                              error := None\<rparr>)
                             (issue (GetBalance addr) (issue GetChainId w))))))"

text \<open>
  \<^verbatim>\<open>parseInt(chainIdHex, 16)\<close>: leading white space, a sign, an optional \<^verbatim>\<open>0x\<close>, then the
  longest run of hexadecimal digits; \<^verbatim>\<open>NaN\<close> when the run is empty.  White space is the
  set \<^verbatim>\<open>StrWhiteSpaceChar\<close> of ECMAScript, in UTF-8.
\<close>

definition ws1 :: "char \<Rightarrow> bool" where
  "ws1 a = (a \<in> set [CHR 0x09, CHR 0x0A, CHR 0x0B, CHR 0x0C, CHR 0x0D, CHR 0x20])"

definition ws2 :: "char \<Rightarrow> char \<Rightarrow> bool" where
  "ws2 a b = (a = CHR 0xC2 \<and> b = CHR 0xA0)"

definition ws3 :: "char \<Rightarrow> char \<Rightarrow> char \<Rightarrow> bool" where
  "ws3 a b c =
     ((a = CHR 0xE1 \<and> b = CHR 0x9A \<and> c = CHR 0x80) \<or>
      (a = CHR 0xE2 \<and> b = CHR 0x80 \<and>
         ((0x80 \<le> (of_char c :: nat) \<and> (of_char c :: nat) \<le> 0x8A) \<or>
          c \<in> set [CHR 0xA8, CHR 0xA9, CHR 0xAF])) \<or>
      (a = CHR 0xE2 \<and> b = CHR 0x81 \<and> c = CHR 0x9F) \<or>
      (a = CHR 0xE3 \<and> b = CHR 0x80 \<and> c = CHR 0x80) \<or>
      (a = CHR 0xEF \<and> b = CHR 0xBB \<and> c = CHR 0xBF))"

fun trimStart :: "string \<Rightarrow> string" where
  "trimStart (a # b # c # s) =
     (if ws1 a then trimStart (b # c # s)
      else if ws2 a b then trimStart (c # s)
      else if ws3 a b c then trimStart s
      else a # b # c # s)"
| "trimStart [a, b] =
     (if ws1 a then trimStart [b] else if ws2 a b then [] else [a, b])"
| "trimStart [a] = (if ws1 a then [] else [a])"
| "trimStart [] = []"

definition hex_value :: "char \<Rightarrow> int option" where
  "hex_value c =
     (let n = (of_char c :: nat)
      in if 48 \<le> n \<and> n \<le> 57 then Some (int n - 48)
         else if 97 \<le> n \<and> n \<le> 102 then Some (int n - 87)
         else if 65 \<le> n \<and> n \<le> 70 then Some (int n - 55)
         else None)"

fun radix16 :: "string \<Rightarrow> int option \<Rightarrow> int option" where
  "radix16 [] acc = acc"
| "radix16 (c # cs) acc =
     (case hex_value c of
        None \<Rightarrow> acc
      | Some d \<Rightarrow> radix16 cs (Some (16 * (case acc of None \<Rightarrow> 0 | Some v \<Rightarrow> v) + d)))"

definition parseInt16 :: "string \<Rightarrow> number" where
  "parseInt16 string =
     (let S = trimStart string;
          neg = (take 1 S = ''-'');
          S1 = (if take 1 S = ''+'' \<or> take 1 S = ''-'' then drop 1 S else S);
          S2 = (if take 2 S1 = ''0x'' \<or> take 2 S1 = ''0X'' then drop 2 S1 else S1)
      in case radix16 S2 None of
           None \<Rightarrow> NaN
         | Some mathInt \<Rightarrow> Number_of neg mathInt 1)"

text \<open>
  \<^verbatim>\<open>handleChainChanged\<close> tests \<^verbatim>\<open>walletState.isConnected\<close> of the render that registered it:
  \<open>rendered\<close> is that render's \<^verbatim>\<open>walletState\<close>.  The effect lists
  \<^verbatim>\<open>walletState.isConnected\<close> among its dependencies, so the handler is registered again
  after every render in which the flag has changed.
\<close>

definition handleChainChanged :: "WalletState \<Rightarrow> string \<Rightarrow> rpc \<Rightarrow> world \<Rightarrow> world" where
  "handleChainChanged rendered chainIdHex env w =
     (if \<not> isConnected rendered then w
      else
        let cid = Number_toString (parseInt16 chainIdHex);
            failed = setWalletState (\<lambda>prev. prev
                       \<lparr>error := Some ''Failed to update network information''\<rparr>);
            w1 = issue (Request ''eth_accounts'') w
        in case request env of
             Rejected _ \<Rightarrow> failed w1
           | Fulfilled None \<Rightarrow> failed w1
           | Fulfilled (Some []) \<Rightarrow> disconnect w1
           | Fulfilled (Some (addr # _)) \<Rightarrow>
               (case getBalance env of
                  Rejected _ \<Rightarrow> failed (issue (GetBalance addr) w1)
                | Fulfilled balanceWei \<Rightarrow>
                    (let balanceEth = fromWei balanceWei;
                         formattedBalance = toFixed 4 (parseFloat balanceEth)
                     in setWalletState (\<lambda>prev. prev
                          \<lparr>chainId := Some cid, address := Some addr, isConnected := True,
                           balance := Some formattedBalance, error := None\<rparr>)
                          (issue (GetBalance addr) w1))))"

definition handleDisconnect :: "world \<Rightarrow> world" where
  "handleDisconnect w = disconnect w"

subsection \<open>Sequences of calls\<close>

datatype action = Connect rpc | Disconnect

fun perform :: "action \<Rightarrow> world \<Rightarrow> world" where
  "perform (Connect env) w = connect env w"
| "perform Disconnect w = disconnect w"

text \<open>
  What a call shows before its last write: with a provider, \<^verbatim>\<open>connect()\<close> shows
  \<open>connect_start w\<close> while its request is pending.
\<close>

fun pending :: "action \<Rightarrow> world \<Rightarrow> world list" where
  "pending (Connect env) w = (if ethereum w then [connect_start w] else [])"
| "pending Disconnect w = []"

text \<open>Every world of a run of calls, each call settling before the next is made.\<close>

fun trace :: "action list \<Rightarrow> world \<Rightarrow> world list" where
  "trace [] w = [w]"
| "trace (a # as) w = w # pending a w @ trace as (perform a w)"

definition both_flags :: "world \<Rightarrow> bool" where
  "both_flags w = (isConnecting (walletState w) \<and> isConnected (walletState w))"

fun never_both :: "world list \<Rightarrow> bool" where
  "never_both [] = True"
| "never_both (w # ws) = (if both_flags w then False else never_both ws)"

text \<open>
  Every \<^verbatim>\<open>connect()\<close> of the run is made while the store is not connected, which is when
  \<^verbatim>\<open>WalletCard\<close> renders the button that calls it.
\<close>

fun connects_while_disconnected :: "action list \<Rightarrow> world \<Rightarrow> bool" where
  "connects_while_disconnected [] w = True"
| "connects_while_disconnected (Connect env # as) w =
     (if isConnected (walletState w) then False
      else connects_while_disconnected as (connect env w))"
| "connects_while_disconnected (Disconnect # as) w =
     connects_while_disconnected as (disconnect w)"

text \<open>The calls issued between an earlier world and a later one.\<close>

definition issued :: "world \<Rightarrow> world \<Rightarrow> call list" where
  "issued w w' = drop (length (calls w)) (calls w')"

text \<open>The provider methods among some calls, in order.\<close>

fun requested :: "call list \<Rightarrow> string list" where
  "requested [] = []"
| "requested (Request m # cs) = m # requested cs"
| "requested (GetChainId # cs) = requested cs"
| "requested (GetBalance a # cs) = requested cs"

text \<open>
  The value that reaches the inner \<^verbatim>\<open>catch\<close> of \<^verbatim>\<open>connect\<close>: the rejection of the request,
  of the chain id fetch or of the balance fetch, whichever comes first.
\<close>

definition connect_failure :: "rpc \<Rightarrow> thrown option" where
  "connect_failure env =
     (case request env of
        Rejected t \<Rightarrow> Some t
      | Fulfilled None \<Rightarrow> None
      | Fulfilled (Some []) \<Rightarrow> None
      | Fulfilled (Some (addr # _)) \<Rightarrow>
          (case getChainId env of
             Rejected t \<Rightarrow> Some t
           | Fulfilled _ \<Rightarrow>
               (case getBalance env of Rejected t \<Rightarrow> Some t | Fulfilled _ \<Rightarrow> None)))"

text \<open>
  Something is thrown inside the \<^verbatim>\<open>try\<close> of the auto-reconnect: a rejection, or the
  \<^verbatim>\<open>TypeError\<close> of \<^verbatim>\<open>accounts.length\<close> on \<^verbatim>\<open>null\<close>.
\<close>

definition autoReconnect_throws :: "rpc \<Rightarrow> bool" where
  "autoReconnect_throws env =
     (case request env of
        Rejected _ \<Rightarrow> True
      | Fulfilled None \<Rightarrow> True
      | Fulfilled (Some []) \<Rightarrow> False
      | Fulfilled (Some (addr # _)) \<Rightarrow>
          (case getChainId env of
             Rejected _ \<Rightarrow> True
           | Fulfilled _ \<Rightarrow>
               (case getBalance env of Rejected _ \<Rightarrow> True | Fulfilled _ \<Rightarrow> False)))"

subsection \<open>Concrete pages and providers\<close>

text \<open>A page just mounted, with a provider and empty storages.\<close>

definition mounted :: world where
  "mounted =
     \<lparr>walletState = initialState, localStorage = Map.empty, sessionStorage = Map.empty,
      ethereum = True, calls = []\<rparr>"

text \<open>The same page reloaded after a successful \<^verbatim>\<open>connect()\<close>.\<close>

definition reloaded :: world where
  "reloaded = setItem ''isWalletConnected'' ''true'' mounted"

text \<open>One account, chain 1 and a balance of 1.23456 ether, in wei.\<close>

definition granting :: rpc where
  "granting =
     \<lparr>request = Fulfilled (Some [''0xABC'']), getChainId = Fulfilled 1,
      getBalance = Fulfilled 1234560000000000000\<rparr>"

definition rejecting :: rpc where
  "rejecting =
     \<lparr>request = Rejected (Error ''MetaMask: User rejected the request.''),
      getChainId = Fulfilled 1, getBalance = Fulfilled 1234560000000000000\<rparr>"

text \<open>No account is authorized any more.\<close>

definition unauthorized :: rpc where
  "unauthorized =
     \<lparr>request = Fulfilled (Some []), getChainId = Fulfilled 1,
      getBalance = Fulfilled 1234560000000000000\<rparr>"

text \<open>The accounts are there and the balance fetch fails.\<close>

definition offline :: rpc where
  "offline =
     \<lparr>request = Fulfilled (Some [''0xABC'']), getChainId = Fulfilled 1,
      getBalance = Rejected (Error ''Network request failed'')\<rparr>"

section \<open>Properties\<close>

lemmas world_ops = setWalletState_def issue_def setItem_def removeItem_def

lemmas scenarios = mounted_def reloaded_def granting_def rejecting_def unauthorized_def
  offline_def initialState_def

subsection \<open>Formatting\<close>

lemma formatted_scenario:
  "toFixed 4 (parseFloat (fromWei 1234560000000000000)) = ''1.2346''"
  by code_simp

lemma String_bigint_1: "String_bigint 1 = ''1''"
  by code_simp

subsection \<open>The flags through \<^verbatim>\<open>connect\<close>\<close>

lemma isConnecting_catch: "\<not> isConnecting (walletState (catch_requestError t w))"
  by (simp add: catch_requestError_def world_ops Let_def)

lemma isConnected_catch:
  "isConnected (walletState (catch_requestError t w)) = isConnected (walletState w)"
  by (simp add: catch_requestError_def world_ops Let_def)

lemma error_catch: "\<exists>msg. error (walletState (catch_requestError t w)) = Some msg"
  by (simp add: catch_requestError_def world_ops Let_def)

lemma isConnecting_connect_resume:
  "\<not> isConnecting (walletState (connect_resume env w))"
  by (simp add: connect_resume_def isConnecting_catch world_ops Let_def
      split: settled.split option.split list.split)

lemma both_flags_connect_start:
  "\<not> isConnected (walletState w) \<Longrightarrow> \<not> both_flags (connect_start w)"
  by (simp add: connect_start_def both_flags_def world_ops)

lemma both_flags_connect:
  "\<not> both_flags w \<Longrightarrow> \<not> isConnected (walletState w) \<Longrightarrow> \<not> both_flags (connect env w)"
  by (simp add: connect_def both_flags_def isConnecting_connect_resume)
     (simp add: connect_start_def world_ops)

lemma never_both_append: "never_both (xs @ ys) = (never_both xs \<and> never_both ys)"
  by (induction xs) auto

lemma walletState_connect_granting:
  "ethereum w \<Longrightarrow>
   walletState (connect granting w) =
     \<lparr>address = Some ''0xABC'', isConnected = True, isConnecting = False, error = None,
      chainId = Some ''1'', balance = Some ''1.2346''\<rparr>"
  by (simp add: connect_def connect_start_def connect_resume_def granting_def world_ops
      Let_def formatted_scenario String_bigint_1)

subsection \<open>Disconnecting\<close>

lemma walletState_disconnect:
  "walletState (disconnect w) = initialState"
  by (simp add: disconnect_def world_ops initialState_def Let_def)

lemma localStorage_disconnect:
  "localStorage (disconnect w) = (localStorage w)(''isWalletConnected'' := None)"
  by (simp add: disconnect_def world_ops Let_def)

lemma both_flags_disconnect: "\<not> both_flags (disconnect w)"
  by (simp add: both_flags_def walletState_disconnect initialState_def)

text \<open>
  C3.  Whatever the store held, \<^verbatim>\<open>disconnect()\<close> leaves the default record with every field
  null or false, and removes the persisted reconnect flag \<^verbatim>\<open>isWalletConnected\<close>.  A second
  \<^verbatim>\<open>disconnect()\<close> right after the first leaves the same store and the same persisted
  storage as the first alone.
\<close>

theorem disconnect_default_idempotent:
  "walletState (disconnect w) =
     \<lparr>address = None, isConnected = False, isConnecting = False,
      error = None, chainId = None, balance = None\<rparr>
   \<and> localStorage (disconnect w) ''isWalletConnected'' = None
   \<and> walletState (disconnect (disconnect w)) = walletState (disconnect w)
   \<and> localStorage (disconnect (disconnect w)) = localStorage (disconnect w)
   \<and> sessionStorage (disconnect (disconnect w)) = sessionStorage (disconnect w)"
proof -
  have "sessionStorage (disconnect v) = Map.empty" for v
    by (simp add: disconnect_def world_ops Let_def)
  then show ?thesis
    by (simp add: walletState_disconnect localStorage_disconnect initialState_def)
qed

subsection \<open>The two flags along a run of calls\<close>

text \<open>
  C1, as amended.  Take any run of \<^verbatim>\<open>connect()\<close> and \<^verbatim>\<open>disconnect()\<close> calls, started in a
  store where \<^verbatim>\<open>isConnecting\<close> and \<^verbatim>\<open>isConnected\<close> are not both true, in which every
  \<^verbatim>\<open>connect()\<close> is made while the store is not connected.  Then at no point of the run,
  the stores shown while a request is pending included, are both flags true.
\<close>

theorem guarded_connects_never_both_flags:
  "\<not> both_flags w \<Longrightarrow> connects_while_disconnected as w \<Longrightarrow> never_both (trace as w)"
proof (induction as arbitrary: w)
  case Nil
  then show ?case by simp
next
  case (Cons a as)
  show ?case
  proof (cases a)
    case (Connect env)
    with Cons.prems have nc: "\<not> isConnected (walletState w)"
      and rest: "connects_while_disconnected as (connect env w)"
      by (auto split: if_splits)
    have "never_both (trace as (connect env w))"
      using Cons.IH [OF both_flags_connect [OF Cons.prems(1) nc] rest] .
    with Connect Cons.prems(1) both_flags_connect_start [OF nc] show ?thesis
      by (simp add: never_both_append)
  next
    case Disconnect
    with Cons.prems have rest: "connects_while_disconnected as (disconnect w)"
      by simp
    have "never_both (trace as (disconnect w))"
      using Cons.IH [OF both_flags_disconnect rest] .
    with Disconnect Cons.prems(1) show ?thesis by simp
  qed
qed

text \<open>
  A run on the mounted page: a rejected \<^verbatim>\<open>connect()\<close>, a successful one, a
  \<^verbatim>\<open>disconnect()\<close> and a second successful \<^verbatim>\<open>connect()\<close>.
\<close>

theorem guarded_connects_never_both_flags_witness:
  "\<not> both_flags mounted
   \<and> connects_while_disconnected
       [Connect rejecting, Connect granting, Disconnect, Connect granting] mounted
   \<and> never_both
       (trace [Connect rejecting, Connect granting, Disconnect, Connect granting] mounted)"
proof -
  have a: "\<not> both_flags mounted"
    by (simp add: both_flags_def scenarios)
  have b: "connects_while_disconnected
             [Connect rejecting, Connect granting, Disconnect, Connect granting] mounted"
    by (simp add: connect_def connect_start_def connect_resume_def catch_requestError_def
        disconnect_def world_ops Let_def scenarios)
  from guarded_connects_never_both_flags [OF a b] a b show ?thesis by simp
qed

text \<open>
  C1 as stated fails.  \<^verbatim>\<open>connect()\<close> sets \<^verbatim>\<open>isConnecting\<close> on top of the previous state, so a
  \<^verbatim>\<open>connect()\<close> made on the connected store shows both flags true until its request settles.
\<close>

theorem connect_while_connected_both_flags:
  "\<not> never_both (trace [Connect granting, Connect granting] mounted)"
  by (simp add: connect_def connect_start_def connect_resume_def both_flags_def
      world_ops Let_def scenarios)

subsection \<open>Failures inside \<^verbatim>\<open>connect\<close>\<close>

text \<open>
  C2, as amended.  When the request, the chain id fetch or the balance fetch of a
  \<^verbatim>\<open>connect()\<close> rejects, the resulting store has \<^verbatim>\<open>error\<close> set to a message and
  \<^verbatim>\<open>isConnecting\<close> false, and \<^verbatim>\<open>isConnected\<close> is what it was before the call: false whenever
  the call was made on a store that was not connected.
\<close>

theorem connect_failure_keeps_isConnected:
  "ethereum w \<Longrightarrow> connect_failure env = Some t \<Longrightarrow>
   (\<exists>msg. error (walletState (connect env w)) = Some msg)
   \<and> \<not> isConnecting (walletState (connect env w))
   \<and> isConnected (walletState (connect env w)) = isConnected (walletState w)"
  by (auto simp add: connect_def connect_failure_def connect_resume_def connect_start_def
      isConnected_catch isConnecting_catch error_catch world_ops
      split: settled.splits option.splits list.splits)

text \<open>On the mounted page, with a balance fetch that fails.\<close>

theorem connect_failure_keeps_isConnected_witness:
  "ethereum mounted \<and> connect_failure offline = Some (Error ''Network request failed'')
   \<and> error (walletState (connect offline mounted)) = Some ''Network request failed''
   \<and> \<not> isConnecting (walletState (connect offline mounted))
   \<and> \<not> isConnected (walletState (connect offline mounted))"
proof -
  have a: "ethereum mounted" by (simp add: scenarios)
  have b: "connect_failure offline = Some (Error ''Network request failed'')"
    by (simp add: connect_failure_def scenarios)
  have c: "error (walletState (connect offline mounted)) = Some ''Network request failed''"
    by (simp add: connect_def connect_start_def connect_resume_def catch_requestError_def
        world_ops Let_def scenarios)
  from connect_failure_keeps_isConnected [OF a b] a b c show ?thesis
    by (simp add: scenarios)
qed

text \<open>
  C2 as stated fails.  The inner \<^verbatim>\<open>catch\<close> writes \<^verbatim>\<open>isConnecting\<close> and \<^verbatim>\<open>error\<close> only: after
  a successful \<^verbatim>\<open>connect()\<close>, a second one whose request is rejected leaves
  \<^verbatim>\<open>isConnected\<close> true.
\<close>

theorem rejected_reconnect_stays_connected:
  "connect_failure rejecting \<noteq> None
   \<and> isConnected (walletState (connect rejecting (connect granting mounted)))"
  by (simp add: connect_failure_def connect_def connect_start_def connect_resume_def
      catch_requestError_def world_ops Let_def scenarios)

subsection \<open>The connected snapshot\<close>

text \<open>
  C4, as amended.  With a provider that returns the account \<^verbatim>\<open>0xABC\<close>, chain id 1 and a
  balance of 1234560000000000000 wei (1.23456 ether), \<^verbatim>\<open>connect()\<close> leaves the store
  \<^verbatim>\<open>{address: "0xABC", isConnected: true, isConnecting: false, error: null, chainId: "1",
  balance: "1.2346"}\<close> and persists the reconnect flag: \<^verbatim>\<open>toFixed(4)\<close> rounds 1.23456 to the
  nearest value with four fractional digits, which is 1.2346.
\<close>

theorem connect_scenario_balance_rounded:
  "ethereum w \<Longrightarrow>
   walletState (connect granting w) =
     \<lparr>address = Some ''0xABC'', isConnected = True, isConnecting = False, error = None,
      chainId = Some ''1'', balance = Some ''1.2346''\<rparr>
   \<and> toFixed 4 (parseFloat (fromWei 1234560000000000000)) = ''1.2346''
   \<and> localStorage (connect granting w) ''isWalletConnected'' = Some ''true''"
  by (simp add: connect_def connect_start_def connect_resume_def granting_def world_ops
      Let_def formatted_scenario String_bigint_1)

theorem connect_scenario_balance_rounded_witness:
  "ethereum mounted
   \<and> walletState (connect granting mounted) =
     \<lparr>address = Some ''0xABC'', isConnected = True, isConnecting = False, error = None,
      chainId = Some ''1'', balance = Some ''1.2346''\<rparr>
   \<and> localStorage (connect granting mounted) ''isWalletConnected'' = Some ''true''"
proof -
  have a: "ethereum mounted" by (simp add: scenarios)
  from connect_scenario_balance_rounded [OF a] a show ?thesis by simp
qed

text \<open>
  C4 as stated fails: the store after \<^verbatim>\<open>connect()\<close> is not the record with the balance
  \<^verbatim>\<open>"1.2345"\<close>.
\<close>

theorem connect_scenario_balance_not_truncated:
  "walletState (connect granting mounted) \<noteq>
     \<lparr>address = Some ''0xABC'', isConnected = True, isConnecting = False, error = None,
      chainId = Some ''1'', balance = Some ''1.2345''\<rparr>"
proof -
  have "ethereum mounted" by (simp add: scenarios)
  then show ?thesis by (simp add: walletState_connect_granting)
qed

subsection \<open>Rejection by the user\<close>

text \<open>
  A rejection value that is no \<^verbatim>\<open>Error\<close> instance gets the same fixed string, whatever it
  carries.
\<close>

lemma non_error_rejection_normalized:
  "ethereum w \<Longrightarrow> request env = Rejected NonError \<Longrightarrow>
   error (walletState (connect env w)) = Some ''Connection rejected by user''"
  by (simp add: connect_def connect_resume_def catch_requestError_def world_ops)

text \<open>
  C5.  When the provider rejects the request of \<^verbatim>\<open>connect()\<close> with an error whose message
  contains \<^verbatim>\<open>User rejected\<close>, the resulting \<^verbatim>\<open>error\<close> is exactly
  \<^verbatim>\<open>Connection rejected by user\<close>.
\<close>

theorem user_rejection_normalized:
  "ethereum w \<Longrightarrow> request env = Rejected (Error message) \<Longrightarrow>
   includes_string message ''User rejected'' \<Longrightarrow>
   error (walletState (connect env w)) = Some ''Connection rejected by user''"
  by (simp add: connect_def connect_resume_def catch_requestError_def world_ops)

theorem user_rejection_normalized_witness:
  "ethereum mounted
   \<and> request rejecting = Rejected (Error ''MetaMask: User rejected the request.'')
   \<and> includes_string ''MetaMask: User rejected the request.'' ''User rejected''
   \<and> error (walletState (connect rejecting mounted)) = Some ''Connection rejected by user''"
proof -
  have a: "ethereum mounted" by (simp add: scenarios)
  have b: "request rejecting = Rejected (Error ''MetaMask: User rejected the request.'')"
    by (simp add: scenarios)
  have c: "includes_string ''MetaMask: User rejected the request.'' ''User rejected''"
    by simp
  from user_rejection_normalized [OF a b c] a b c show ?thesis by simp
qed

subsection \<open>Auto-reconnect\<close>

text \<open>
  C6, as amended.  When the persisted reconnect flag is \<^verbatim>\<open>"true"\<close> and the page has a
  provider, the only provider method the auto-reconnect at mount requests is
  \<^verbatim>\<open>eth_accounts\<close>, once, whatever the provider and the Web3 client answer; it never
  requests \<^verbatim>\<open>eth_requestAccounts\<close>.  When the silent account query returns at least one
  account and the chain id and the balance fetches succeed, it leaves the same connected
  store as the success path of \<^verbatim>\<open>connect()\<close>.
\<close>

theorem autoReconnect_silent:
  assumes "localStorage w ''isWalletConnected'' = Some ''true''" and "ethereum w"
  shows "requested (issued w (autoReconnect env w)) = [''eth_accounts'']
         \<and> Request ''eth_requestAccounts'' \<notin> set (issued w (autoReconnect env w))
         \<and> (request env = Fulfilled (Some (addr # rest)) \<longrightarrow>
            getChainId env = Fulfilled cid \<longrightarrow> getBalance env = Fulfilled wei \<longrightarrow>
              walletState (autoReconnect env w) =
                \<lparr>address = Some addr, isConnected = True, isConnecting = False,
                 error = None, chainId = Some (String_bigint cid),
                 balance = Some (toFixed 4 (parseFloat (fromWei wei)))\<rparr>
              \<and> walletState (autoReconnect env w) = walletState (connect env w)
              \<and> issued w (autoReconnect env w) =
                  [Request ''eth_accounts'', GetChainId, GetBalance addr])"
proof -
  have calls: "requested (issued w (autoReconnect env w)) = [''eth_accounts'']
      \<and> Request ''eth_requestAccounts'' \<notin> set (issued w (autoReconnect env w))"
    using assms
    by (simp add: autoReconnect_def issued_def world_ops Let_def
        split: settled.split option.split list.split)
  have store: "walletState (autoReconnect env w) =
        \<lparr>address = Some addr, isConnected = True, isConnecting = False,
         error = None, chainId = Some (String_bigint cid),
         balance = Some (toFixed 4 (parseFloat (fromWei wei)))\<rparr>
      \<and> walletState (autoReconnect env w) = walletState (connect env w)
      \<and> issued w (autoReconnect env w) =
          [Request ''eth_accounts'', GetChainId, GetBalance addr]"
    if "request env = Fulfilled (Some (addr # rest))"
      and "getChainId env = Fulfilled cid" and "getBalance env = Fulfilled wei"
    using assms that
    by (simp add: autoReconnect_def connect_def connect_start_def connect_resume_def
        issued_def world_ops Let_def)
  from calls store show ?thesis by blast
qed

text \<open>
  On the reloaded page: the provider of the connected snapshot, and one whose balance fetch
  fails.
\<close>

theorem autoReconnect_silent_witness:
  "localStorage reloaded ''isWalletConnected'' = Some ''true'' \<and> ethereum reloaded
   \<and> request granting = Fulfilled (Some [''0xABC''])
   \<and> getChainId granting = Fulfilled 1
   \<and> getBalance granting = Fulfilled 1234560000000000000
   \<and> walletState (autoReconnect granting reloaded) =
       \<lparr>address = Some ''0xABC'', isConnected = True, isConnecting = False, error = None,
        chainId = Some ''1'', balance = Some ''1.2346''\<rparr>
   \<and> issued reloaded (autoReconnect granting reloaded) =
       [Request ''eth_accounts'', GetChainId, GetBalance ''0xABC'']
   \<and> requested (issued reloaded (autoReconnect granting reloaded)) = [''eth_accounts'']
   \<and> requested (issued reloaded (autoReconnect offline reloaded)) = [''eth_accounts'']"
proof -
  have a: "localStorage reloaded ''isWalletConnected'' = Some ''true''"
    by (simp add: scenarios world_ops)
  have b: "ethereum reloaded" by (simp add: scenarios world_ops)
  have c: "request granting = Fulfilled (Some [''0xABC''])" by (simp add: scenarios)
  have d: "getChainId granting = Fulfilled 1" by (simp add: scenarios)
  have e: "getBalance granting = Fulfilled 1234560000000000000" by (simp add: scenarios)
  from autoReconnect_silent [OF a b, of granting "''0xABC''" "[]" 1 1234560000000000000]
    autoReconnect_silent [OF a b, of offline] a b c d e
  show ?thesis
    by (simp add: formatted_scenario String_bigint_1)
qed

text \<open>
  C6 as stated fails.  The flag is \<^verbatim>\<open>"true"\<close> and the silent query returns an account, but
  the balance fetch is rejected: the \<^verbatim>\<open>catch\<close> removes the flag and the store stays
  disconnected.
\<close>

theorem autoReconnect_fetch_failure_not_connected:
  "localStorage reloaded ''isWalletConnected'' = Some ''true''
   \<and> request offline = Fulfilled (Some [''0xABC''])
   \<and> \<not> isConnected (walletState (autoReconnect offline reloaded))
   \<and> localStorage (autoReconnect offline reloaded) ''isWalletConnected'' = None"
  by (simp add: autoReconnect_def world_ops Let_def scenarios)

text \<open>
  C7, as amended.  With the flag set and a provider present: whenever something is thrown
  inside the \<^verbatim>\<open>try\<close> of the auto-reconnect (the account query is rejected or answers
  \<^verbatim>\<open>null\<close>, or the chain id or balance fetch is rejected), the persisted flag is removed and
  the store is left as it was, the defaults at mount, with no error set.  When the provider
  answers with an empty account list the store is left as it was too, with no error set.
\<close>

theorem autoReconnect_throw_clears_flag:
  assumes "localStorage w ''isWalletConnected'' = Some ''true''" and "ethereum w"
  shows "(autoReconnect_throws env \<longrightarrow>
            localStorage (autoReconnect env w) ''isWalletConnected'' = None
            \<and> walletState (autoReconnect env w) = walletState w)
         \<and> (request env = Fulfilled (Some []) \<longrightarrow>
            walletState (autoReconnect env w) = walletState w)"
  using assms
  by (auto simp add: autoReconnect_def autoReconnect_throws_def world_ops Let_def
      split: settled.splits option.splits list.splits)

text \<open>On the reloaded page: a balance fetch that fails, and an empty account list.\<close>

theorem autoReconnect_throw_clears_flag_witness:
  "localStorage reloaded ''isWalletConnected'' = Some ''true'' \<and> ethereum reloaded
   \<and> autoReconnect_throws offline
   \<and> localStorage (autoReconnect offline reloaded) ''isWalletConnected'' = None
   \<and> walletState (autoReconnect offline reloaded) = initialState
   \<and> request unauthorized = Fulfilled (Some [])
   \<and> walletState (autoReconnect unauthorized reloaded) = initialState"
proof -
  have a: "localStorage reloaded ''isWalletConnected'' = Some ''true''"
    by (simp add: scenarios world_ops)
  have b: "ethereum reloaded" by (simp add: scenarios world_ops)
  have c: "autoReconnect_throws offline" by (simp add: autoReconnect_throws_def scenarios)
  have d: "request unauthorized = Fulfilled (Some [])" by (simp add: scenarios)
  have e: "walletState reloaded = initialState" by (simp add: scenarios world_ops)
  from autoReconnect_throw_clears_flag [OF a b, of offline]
    autoReconnect_throw_clears_flag [OF a b, of unauthorized] a b c d e
  show ?thesis by simp
qed

text \<open>
  C7 as stated fails.  An empty account list is no exception: the \<^verbatim>\<open>if\<close> is skipped, the
  \<^verbatim>\<open>catch\<close> is not entered, and the flag stays \<^verbatim>\<open>"true"\<close>.
\<close>

theorem autoReconnect_empty_keeps_flag:
  "localStorage (autoReconnect unauthorized reloaded) ''isWalletConnected'' = Some ''true''"
  by (simp add: autoReconnect_def world_ops Let_def scenarios)

subsection \<open>Provider events\<close>

text \<open>
  The handler does nothing when the render that registered it was not connected.
\<close>

lemma handleChainChanged_guard:
  "\<not> isConnected rendered \<Longrightarrow> handleChainChanged rendered chainIdHex env w = w"
  by (simp add: handleChainChanged_def)

lemma chainId_0x5: "Number_toString (parseInt16 ''0x5'') = ''5''"
  by code_simp

text \<open>
  C8 does not hold of the code, although the handler's own comment says
  \<^verbatim>\<open>Only update if wallet is currently connected\<close>.  The handler tests the flag of the render
  that registered it, and stays registered until the effect runs again after a later
  render.  After a successful \<^verbatim>\<open>connect()\<close> and a \<^verbatim>\<open>disconnect()\<close> the store is not
  connected; a \<^verbatim>\<open>chainChanged\<close> event that reaches the handler of the connected render is
  not ignored: it requests the accounts and writes a connected store on the new chain.
\<close>

theorem stale_chainChanged_reconnects:
  "\<not> isConnected (walletState (disconnect (connect granting mounted)))
   \<and> walletState
       (handleChainChanged (walletState (connect granting mounted)) ''0x5'' granting
          (disconnect (connect granting mounted))) =
     \<lparr>address = Some ''0xABC'', isConnected = True, isConnecting = False, error = None,
      chainId = Some ''5'', balance = Some ''1.2346''\<rparr>
   \<and> requested
       (issued (disconnect (connect granting mounted))
          (handleChainChanged (walletState (connect granting mounted)) ''0x5'' granting
             (disconnect (connect granting mounted)))) = [''eth_accounts'']"
proof -
  have e: "ethereum mounted" by (simp add: scenarios)
  have c: "isConnected (walletState (connect granting mounted))"
    by (simp add: walletState_connect_granting [OF e])
  have d: "walletState (disconnect (connect granting mounted)) = initialState"
    by (rule walletState_disconnect)
  show ?thesis
    using c d
    by (simp add: handleChainChanged_def granting_def issued_def world_ops Let_def
        initialState_def formatted_scenario chainId_0x5)
qed

text \<open>
  C9.  An \<^verbatim>\<open>accountsChanged\<close> event with an empty account array leaves the default
  disconnected record and removes the persisted reconnect flag, whatever the store held
  before, a connected store in particular.
\<close>

theorem accountsChanged_empty_disconnects:
  "walletState (handleAccountsChanged [] env w) =
     \<lparr>address = None, isConnected = False, isConnecting = False,
      error = None, chainId = None, balance = None\<rparr>
   \<and> localStorage (handleAccountsChanged [] env w) ''isWalletConnected'' = None"
  by (simp add: handleAccountsChanged_def walletState_disconnect localStorage_disconnect
      initialState_def)

text \<open>
  C10.  An \<^verbatim>\<open>accountsChanged\<close> event with a non-empty account array whose fetches succeed
  sets \<^verbatim>\<open>isConnected\<close>, replaces \<^verbatim>\<open>address\<close>, \<^verbatim>\<open>chainId\<close> and \<^verbatim>\<open>balance\<close> by the first account
  and the fetched values, clears \<^verbatim>\<open>error\<close> and leaves \<^verbatim>\<open>isConnecting\<close> as it was, for every
  prior store; from the default store it leads to a connected one without any
  \<^verbatim>\<open>connect()\<close>.
\<close>

theorem accountsChanged_connects:
  assumes "getChainId env = Fulfilled cid" and "getBalance env = Fulfilled wei"
  shows "walletState (handleAccountsChanged (addr # rest) env w) =
           (walletState w)
             \<lparr>address := Some addr, isConnected := True,
              chainId := Some (String_bigint cid),
              balance := Some (toFixed 4 (parseFloat (fromWei wei))), error := None\<rparr>
         \<and> isConnected (walletState (handleAccountsChanged (addr # rest) env w))
         \<and> isConnecting (walletState (handleAccountsChanged (addr # rest) env w)) =
             isConnecting (walletState w)"
  using assms by (simp add: handleAccountsChanged_def world_ops Let_def)

text \<open>On the mounted page, whose store is the default one.\<close>

theorem accountsChanged_connects_witness:
  "getChainId granting = Fulfilled 1 \<and> getBalance granting = Fulfilled 1234560000000000000
   \<and> walletState mounted = initialState
   \<and> walletState (handleAccountsChanged [''0xDEF''] granting mounted) =
       \<lparr>address = Some ''0xDEF'', isConnected = True, isConnecting = False, error = None,
        chainId = Some ''1'', balance = Some ''1.2346''\<rparr>"
proof -
  have a: "getChainId granting = Fulfilled 1" by (simp add: scenarios)
  have b: "getBalance granting = Fulfilled 1234560000000000000" by (simp add: scenarios)
  have c: "walletState mounted = initialState" by (simp add: scenarios)
  from accountsChanged_connects [OF a b, of "''0xDEF''" "[]" mounted] a b c show ?thesis
    by (simp add: formatted_scenario String_bigint_1 initialState_def)
qed

end
